theory Spec2Isabelle
  imports Complex_Main
begin

section \<open>The CloudWatch Logs Insights metrics fetcher\<close>

text \<open>
  A shallow embedding of \<^verbatim>\<open>CwlInsightsMetricsFetcher\<close>
  (\<^verbatim>\<open>src/braket/jobs/metrics_data/cwl_insights_metrics_fetcher.py\<close>).

  The class talks to three things outside itself, and each is made explicit:
  \<^item> the process's surroundings (the wall clock read by \<^verbatim>\<open>time.time()\<close> and the trace of
    calls on the logs client, of \<^verbatim>\<open>time.sleep\<close> and of messages written to the logger) are
    the record \<open>world\<close>, passed in and returned updated;
  \<^item> the remote service behind \<^verbatim>\<open>aws_session.logs_client\<close> is the record
    \<open>logs_client\<close>: what it answers and how long each answer takes;
  \<^item> the class \<^verbatim>\<open>LogMetricsParser\<close>, whose source is not part of this file, is the record
    \<open>log_metrics_parser\<close> of its constructor and its two methods, over an arbitrary type of
    parser states; the enumerations \<^verbatim>\<open>MetricType\<close> and \<^verbatim>\<open>MetricStatistic\<close> are type
    variables, since the fetcher only hands their values on.

  Exceptions are values of the type \<open>error\<close>, a function that can raise returns
  \<open>error + 'a\<close>. Seconds are rational numbers: the model keeps the order and the arithmetic
  of Python's floats and leaves their rounding out.
\<close>

subsection \<open>Python values and exceptions\<close>

datatype error =
    MetricsRetrievalError string
  | KeyError string
  | ValueError string
  | ClientError string

text \<open>\<^verbatim>\<open>int(x)\<close> on a float truncates towards zero.\<close>

definition py_int :: "rat \<Rightarrow> int" where
  "py_int x = (if 0 \<le> x then \<lfloor>x\<rfloor> else \<lceil>x\<rceil>)"

text \<open>
  \<^verbatim>\<open>a or b\<close> is \<^verbatim>\<open>b\<close> when \<^verbatim>\<open>a\<close> is falsy: \<^verbatim>\<open>None\<close>, the integer 0, the empty string.
\<close>

definition py_or_int :: "int option \<Rightarrow> int \<Rightarrow> int" where
  "py_or_int a b = (case a of None \<Rightarrow> b | Some x \<Rightarrow> if x = 0 then b else x)"

definition py_or_str :: "string option \<Rightarrow> string \<Rightarrow> string" where
  "py_or_str a b = (case a of None \<Rightarrow> b | Some x \<Rightarrow> if x = [] then b else x)"

subsection \<open>Data\<close>

text \<open>
  One entry of a result line is a dictionary, \<^verbatim>\<open>{"field": ..., "value": ...}\<close> when it is
  well formed; a line (a raw record) is a list of entries.
\<close>

type_synonym element = "string \<rightharpoonup> string"
type_synonym log_line = "element list"

record response =
  status :: string
  results :: "log_line list"

record start_query_request =
  logGroupName :: string
  startTime :: int
  endTime :: int
  queryString :: string
  limit :: int

text \<open>
  The remote service. \<open>start_query\<close> answers a request with a query id (the \<^verbatim>\<open>queryId\<close>
  of its response) or raises; \<open>get_query_results qid k\<close> is the answer to a status check of
  \<open>qid\<close> when \<open>k\<close> status checks have been answered before it, so that a status sequence
  is \<open>\<lambda>k. status (get_query_results R qid k)\<close>; the two \<open>seconds\<close> fields are the wall-clock
  time the calls take. A status check always has an answer with a status and results.
\<close>

record logs_client =
  start_query :: "start_query_request \<Rightarrow> error + string"
  start_query_seconds :: rat
  get_query_results :: "string \<Rightarrow> nat \<Rightarrow> response"
  get_query_results_seconds :: "nat \<Rightarrow> rat"

text \<open>
  What the fetcher does to its surroundings, in the order it does it: the calls on the
  logs client, the sleeps and the warnings handed to the logger.
\<close>

datatype event =
    StartQuery start_query_request
  | GetQueryResults string
  | Sleep rat
  | Warning string

text \<open>
  \<open>clock\<close> is what \<^verbatim>\<open>time.time()\<close> returns, \<open>answered\<close> the number of status checks the
  service has answered so far, \<open>trace\<close> the events so far, oldest first. Time passes in
  the calls on the service and in \<^verbatim>\<open>time.sleep\<close>; the other statements take none.
\<close>

record world =
  clock :: rat
  answered :: nat
  trace :: "event list"

record fetcher =
  poll_timeout_seconds :: rat
  poll_interval_seconds :: rat

record ('p, 'm, 's, 't) log_metrics_parser =
  LogMetricsParser :: 'p
  parse_log_message :: "string option \<Rightarrow> string \<Rightarrow> 'p \<Rightarrow> 'p"
  get_parsed_metrics :: "'m \<Rightarrow> 's \<Rightarrow> 'p \<Rightarrow> 't"

definition LOG_GROUP_NAME :: string where
  "LOG_GROUP_NAME = ''/aws/braket/jobs''"

definition QUERY_DEFAULT_JOB_DURATION :: int where
  "QUERY_DEFAULT_JOB_DURATION = 3 * 60 * 60"

subsection \<open>Effects\<close>

text \<open>\<^verbatim>\<open>time.sleep(secs)\<close> raises \<^verbatim>\<open>ValueError\<close> on a negative argument.\<close>

definition time_sleep :: "rat \<Rightarrow> world \<Rightarrow> error + world" where
  "time_sleep secs w =
     (if secs < 0 then Inl (ValueError ''sleep length must be non-negative'')
      else Inr (w\<lparr>clock := clock w + secs, trace := trace w @ [Sleep secs]\<rparr>))"

definition call_get_query_results ::
  "logs_client \<Rightarrow> string \<Rightarrow> world \<Rightarrow> response \<times> world" where
  "call_get_query_results R query_id w =
     (let k = answered w
      in (get_query_results R query_id k,
          w\<lparr>clock := clock w + get_query_results_seconds R k, answered := Suc k,
            trace := trace w @ [GetQueryResults query_id]\<rparr>))"

definition call_start_query ::
  "logs_client \<Rightarrow> start_query_request \<Rightarrow> world \<Rightarrow> (error + string) \<times> world" where
  "call_start_query R request w =
     (start_query R request,
      w\<lparr>clock := clock w + start_query_seconds R,
        trace := trace w @ [StartQuery request]\<rparr>)"

subsection \<open>\<^verbatim>\<open>_get_element_from_log_line\<close> (lines 54-70)\<close>

text \<open>
  \<^verbatim>\<open>next((element["value"] for element in log_line if element["field"] == element_name), None)\<close>:
  the generator is consumed up to its first item, so entries after the first match are
  never looked at, and a dictionary without the key read raises \<^verbatim>\<open>KeyError\<close>.
\<close>

fun get_element_from_log_line :: "string \<Rightarrow> log_line \<Rightarrow> error + string option" where
  "get_element_from_log_line element_name [] = Inr None"
| "get_element_from_log_line element_name (element # log_line) =
     (case element ''field'' of
        None \<Rightarrow> Inl (KeyError ''field'')
      | Some f \<Rightarrow>
          if f = element_name
          then (case element ''value'' of
                  None \<Rightarrow> Inl (KeyError ''value'')
                | Some v \<Rightarrow> Inr (Some v))
          else get_element_from_log_line element_name log_line)"

subsection \<open>\<^verbatim>\<open>_get_metrics_results_sync\<close> (lines 72-95)\<close>

text \<open>
  The \<^verbatim>\<open>while\<close> loop of lines 85-93. Nothing in the code bounds the number of rounds (with
  a zero interval and an instant service the clock never reaches the deadline), so the
  loop is a partial function and \<open>None\<close> is the run that never returns.
\<close>

partial_function (option) get_metrics_results_loop ::
  "logs_client \<Rightarrow> fetcher \<Rightarrow> string \<Rightarrow> rat \<Rightarrow> world
     \<Rightarrow> ((error + log_line list) \<times> world) option" where
  "get_metrics_results_loop R F query_id timeout_time w =
     (if clock w < timeout_time then
        (case call_get_query_results R query_id w of (response, w1) \<Rightarrow>
           if status response \<in> set [''Failed'', ''Cancelled'']
           then Some (Inl (MetricsRetrievalError
                  (''Query '' @ query_id @ '' failed with status '' @ status response @ ''.'')), w1)
           else if status response = ''Complete'' then Some (Inr (results response), w1)
           else (case time_sleep (poll_interval_seconds F) w1 of
                   Inl e \<Rightarrow> Some (Inl e, w1)
                 | Inr w2 \<Rightarrow> get_metrics_results_loop R F query_id timeout_time w2))
      else Some (Inr [],
             w\<lparr>trace := trace w
                      @ [Warning (''Timed out waiting for query '' @ query_id @ ''.'')]\<rparr>))"

definition get_metrics_results_sync ::
  "logs_client \<Rightarrow> fetcher \<Rightarrow> string \<Rightarrow> world \<Rightarrow> ((error + log_line list) \<times> world) option" where
  "get_metrics_results_sync R F query_id w =
     (let timeout_time = clock w + poll_timeout_seconds F
      in get_metrics_results_loop R F query_id timeout_time w)"

subsection \<open>\<^verbatim>\<open>_parse_log_line\<close> and \<^verbatim>\<open>_parse_log_query_results\<close> (lines 97-131)\<close>

definition parse_log_line ::
  "('p, 'm, 's, 't) log_metrics_parser \<Rightarrow> log_line \<Rightarrow> 'p \<Rightarrow> error + 'p" where
  "parse_log_line P result_entry parser =
     (case get_element_from_log_line ''@message'' result_entry of
        Inl e \<Rightarrow> Inl e
      | Inr None \<Rightarrow> Inr parser
      | Inr (Some message) \<Rightarrow>
          if message \<noteq> []
          then (case get_element_from_log_line ''@timestamp'' result_entry of
                  Inl e \<Rightarrow> Inl e
                | Inr timestamp \<Rightarrow> Inr (parse_log_message P timestamp message parser))
          else Inr parser)"

text \<open>The \<^verbatim>\<open>for\<close> loop of lines 129-130, stopped by the first exception.\<close>

fun parse_log_lines ::
  "('p, 'm, 's, 't) log_metrics_parser \<Rightarrow> log_line list \<Rightarrow> 'p \<Rightarrow> error + 'p" where
  "parse_log_lines P [] parser = Inr parser"
| "parse_log_lines P (result # results') parser =
     (case parse_log_line P result parser of
        Inl e \<Rightarrow> Inl e
      | Inr parser' \<Rightarrow> parse_log_lines P results' parser')"

definition parse_log_query_results ::
  "('p, 'm, 's, 't) log_metrics_parser \<Rightarrow> log_line list \<Rightarrow> 'm \<Rightarrow> 's \<Rightarrow> error + 't" where
  "parse_log_query_results P results' metric_type statistic =
     (case parse_log_lines P results' (LogMetricsParser P) of
        Inl e \<Rightarrow> Inl e
      | Inr parser \<Rightarrow> Inr (get_parsed_metrics P metric_type statistic parser))"

subsection \<open>\<^verbatim>\<open>get_metrics_for_job\<close> (lines 133-192)\<close>

text \<open>
  Lines 169-188, the submission of the query: the time window, the stream prefix, the
  query string and the call of \<^verbatim>\<open>start_query\<close>. The result is the query id or the
  exception of the client. In the f-string, \<^verbatim>\<open>\\/\<close> is a backslash and a slash.
\<close>

definition query_submitter ::
  "logs_client \<Rightarrow> string \<Rightarrow> int option \<Rightarrow> int option \<Rightarrow> string option \<Rightarrow> world
     \<Rightarrow> (error + string) \<times> world" where
  "query_submitter R job_name job_start_time job_end_time stream_prefix w =
     (let query_end_time = py_or_int job_end_time (py_int (clock w));
          query_start_time =
            py_or_int job_start_time (query_end_time - QUERY_DEFAULT_JOB_DURATION);
          stream_prefix' = py_or_str stream_prefix job_name;
          query = ''fields @timestamp, @message ''
                @ ''| filter @logStream like /^'' @ stream_prefix' @ CHR 0x5C # ''// ''
                @ ''| filter @message like /Metrics - /''
      in call_start_query R
           \<lparr>logGroupName = LOG_GROUP_NAME, startTime = query_start_time,
            endTime = query_end_time, queryString = query, limit = 10000\<rparr> w)"

text \<open>Lines 188-192: poll for the results and aggregate them.\<close>

definition get_metrics_for_job ::
  "('p, 'm, 's, 't) log_metrics_parser \<Rightarrow> logs_client \<Rightarrow> fetcher \<Rightarrow> string \<Rightarrow> 'm \<Rightarrow> 's
     \<Rightarrow> int option \<Rightarrow> int option \<Rightarrow> string option \<Rightarrow> world
     \<Rightarrow> ((error + 't) \<times> world) option" where
  "get_metrics_for_job P R F job_name metric_type statistic job_start_time job_end_time
       stream_prefix w =
     (case query_submitter R job_name job_start_time job_end_time stream_prefix w of
        (Inl e, w1) \<Rightarrow> Some (Inl e, w1)
      | (Inr query_id, w1) \<Rightarrow>
          (case get_metrics_results_sync R F query_id w1 of
             None \<Rightarrow> None
           | Some (Inl e, w2) \<Rightarrow> Some (Inl e, w2)
           | Some (Inr results', w2) \<Rightarrow>
               Some (parse_log_query_results P results' metric_type statistic, w2)))"

section \<open>Vocabulary of the properties\<close>

subsection \<open>Rounds of the polling loop\<close>

text \<open>
  The loop treats three statuses apart; every other one (\<^verbatim>\<open>Scheduled\<close>, \<^verbatim>\<open>Running\<close>, ...)
  sends it to sleep.
\<close>

definition terminal :: "string \<Rightarrow> bool" where
  "terminal s \<longleftrightarrow> s \<in> set [''Complete'', ''Failed'', ''Cancelled'']"

text \<open>
  One round that does not leave the loop: a status check and a sleep of one interval.
  \<open>rounds R F query_id k w\<close> is the world after \<open>k\<close> of them, and \<open>status_at R F query_id w k\<close>
  the status that the check of round \<open>k\<close> (counted from 0) is answered.
\<close>

definition waiting_round :: "logs_client \<Rightarrow> fetcher \<Rightarrow> string \<Rightarrow> world \<Rightarrow> world" where
  "waiting_round R F query_id w =
     (let w1 = snd (call_get_query_results R query_id w)
      in w1\<lparr>clock := clock w1 + poll_interval_seconds F,
            trace := trace w1 @ [Sleep (poll_interval_seconds F)]\<rparr>)"

fun rounds :: "logs_client \<Rightarrow> fetcher \<Rightarrow> string \<Rightarrow> nat \<Rightarrow> world \<Rightarrow> world" where
  "rounds R F query_id 0 w = w"
| "rounds R F query_id (Suc n) w = rounds R F query_id n (waiting_round R F query_id w)"

definition status_at :: "logs_client \<Rightarrow> fetcher \<Rightarrow> string \<Rightarrow> world \<Rightarrow> nat \<Rightarrow> string" where
  "status_at R F query_id w k =
     status (fst (call_get_query_results R query_id (rounds R F query_id k w)))"

definition timeout_warning :: "string \<Rightarrow> event" where
  "timeout_warning query_id = Warning (''Timed out waiting for query '' @ query_id @ ''.'')"

text \<open>
  Two polls see the same service: the same time is left until the deadline, and the
  service replays the same answers and the same delays from where each world stands.
\<close>

definition replays :: "logs_client \<Rightarrow> string \<Rightarrow> rat \<Rightarrow> world \<Rightarrow> rat \<Rightarrow> world \<Rightarrow> bool" where
  "replays R q d w d' w' \<longleftrightarrow>
     d' - clock w' = d - clock w
     \<and> (\<forall>k. get_query_results R q (answered w' + k) = get_query_results R q (answered w + k))
     \<and> (\<forall>k. get_query_results_seconds R (answered w' + k)
            = get_query_results_seconds R (answered w + k))"

subsection \<open>Records and what the parser is fed\<close>

text \<open>
  A record is well formed when each of its entries has both keys. \<open>first_value\<close> is the
  value of the first entry with the given field name, \<open>ingested\<close> the pairs of timestamp
  and message of the records whose first \<^verbatim>\<open>@message\<close> entry has a non-empty value, in the
  order of the records, and \<open>feed\<close> the parser after it has been given such pairs in turn.
\<close>

definition well_formed :: "log_line \<Rightarrow> bool" where
  "well_formed line \<longleftrightarrow>
     list_all (\<lambda>element. element ''field'' \<noteq> None \<and> element ''value'' \<noteq> None) line"

definition has_field :: "string \<Rightarrow> log_line \<Rightarrow> bool" where
  "has_field name line \<longleftrightarrow> list_ex (\<lambda>element. element ''field'' = Some name) line"

definition first_value :: "string \<Rightarrow> log_line \<Rightarrow> string option" where
  "first_value name line =
     (case find (\<lambda>element. element ''field'' = Some name) line of
        None \<Rightarrow> None
      | Some element \<Rightarrow> element ''value'')"

fun ingested :: "log_line list \<Rightarrow> (string option \<times> string) list" where
  "ingested [] = []"
| "ingested (line # lines) =
     (case first_value ''@message'' line of
        None \<Rightarrow> ingested lines
      | Some message \<Rightarrow>
          if message = [] then ingested lines
          else (first_value ''@timestamp'' line, message) # ingested lines)"

definition feed ::
  "('p, 'm, 's, 't) log_metrics_parser \<Rightarrow> 'p \<Rightarrow> (string option \<times> string) list \<Rightarrow> 'p" where
  "feed P parser pairs =
     foldl (\<lambda>parser (timestamp, message). parse_log_message P timestamp message parser)
       parser pairs"

text \<open>A parser that only records the calls made on it, oldest first.\<close>

datatype ('m, 's) parser_call = Ingest "string option" string | Finalize 'm 's

definition recording_parser ::
  "(('m, 's) parser_call list, 'm, 's, ('m, 's) parser_call list) log_metrics_parser" where
  "recording_parser =
     \<lparr>LogMetricsParser = [],
      parse_log_message = (\<lambda>timestamp message calls. calls @ [Ingest timestamp message]),
      get_parsed_metrics =
        (\<lambda>metric_type statistic calls. calls @ [Finalize metric_type statistic])\<rparr>"

subsection \<open>Sample services, worlds and records\<close>

text \<open>
  \<open>stub_client statuses records\<close> accepts every query as \<^verbatim>\<open>q-1\<close>, answers the \<open>k\<close>-th status
  check with the \<open>k\<close>-th of \<open>statuses\<close> (\<^verbatim>\<open>Running\<close> once they are used up), and takes no time;
  \<open>complete_client records\<close> answers every status check with \<^verbatim>\<open>Complete\<close>.
\<close>

definition stub_client :: "string list \<Rightarrow> log_line list \<Rightarrow> logs_client" where
  "stub_client statuses records =
     \<lparr>start_query = (\<lambda>request. Inr ''q-1''),
      start_query_seconds = 0,
      get_query_results = (\<lambda>query_id k.
         \<lparr>status = (if k < length statuses then statuses ! k else ''Running''),
          results = records\<rparr>),
      get_query_results_seconds = (\<lambda>k. 0)\<rparr>"

definition complete_client :: "log_line list \<Rightarrow> logs_client" where
  "complete_client records =
     \<lparr>start_query = (\<lambda>request. Inr ''q-1''),
      start_query_seconds = 0,
      get_query_results = (\<lambda>query_id k. \<lparr>status = ''Complete'', results = records\<rparr>),
      get_query_results_seconds = (\<lambda>k. 0)\<rparr>"

text \<open>
  The request for job \<^verbatim>\<open>job-1\<close> with the window from 1000 to 2000, the world before
  it is submitted, after it is submitted, and after one status check.
\<close>

definition job1_request :: start_query_request where
  "job1_request =
     \<lparr>logGroupName = ''/aws/braket/jobs'', startTime = 1000, endTime = 2000,
      queryString = ''fields @timestamp, @message | filter @logStream like /^job-1''
         @ CHR 0x5C # ''// | filter @message like /Metrics - /'',
      limit = 10000\<rparr>"

definition world0 :: world where
  "world0 = \<lparr>clock = 1000, answered = 0, trace = []\<rparr>"

definition world1 :: world where
  "world1 = \<lparr>clock = 1000, answered = 0, trace = [StartQuery job1_request]\<rparr>"

definition world2 :: world where
  "world2 = \<lparr>clock = 1000, answered = 1,
              trace = [StartQuery job1_request, GetQueryResults ''q-1'']\<rparr>"

definition energy_line :: "string \<Rightarrow> string \<Rightarrow> log_line" where
  "energy_line timestamp message =
     [[''field'' \<mapsto> ''@timestamp'', ''value'' \<mapsto> timestamp],
      [''field'' \<mapsto> ''@message'', ''value'' \<mapsto> message]]"

definition ptr_line :: log_line where
  "ptr_line = [[''field'' \<mapsto> ''@ptr'', ''value'' \<mapsto> ''abc'']]"

section \<open>Facts about the model\<close>

subsection \<open>The polling loop, one branch at a time\<close>

text \<open>
  Each lemma unfolds the loop once along one branch of lines 85-95; \<open>loop_waiting_rounds\<close>
  chains the sleeping branch \<open>n\<close> times.
\<close>

lemma loop_waiting_round:
  assumes "0 \<le> poll_interval_seconds F" and "clock w < d"
    and "\<not> terminal (status (fst (call_get_query_results R q w)))"
  shows "get_metrics_results_loop R F q d w
       = get_metrics_results_loop R F q d (waiting_round R F q w)"
  using assms
  by (subst get_metrics_results_loop.simps)
     (simp add: terminal_def waiting_round_def time_sleep_def case_prod_beta Let_def)

lemma loop_waiting_rounds:
  assumes "0 \<le> poll_interval_seconds F"
    and "\<forall>k<n. clock (rounds R F q k w) < d \<and> \<not> terminal (status_at R F q w k)"
  shows "get_metrics_results_loop R F q d w
       = get_metrics_results_loop R F q d (rounds R F q n w)"
  using assms(2)
proof (induction n arbitrary: w)
  case 0
  show ?case by simp
next
  case (Suc n)
  from Suc.prems have first: "clock w < d" "\<not> terminal (status (fst (call_get_query_results R q w)))"
    by (auto simp: status_at_def dest: spec[of _ 0])
  have rest: "\<forall>k<n. clock (rounds R F q k (waiting_round R F q w)) < d
                \<and> \<not> terminal (status_at R F q (waiting_round R F q w) k)"
  proof (intro allI impI)
    fix k assume "k < n"
    then have "Suc k < Suc n" by simp
    with Suc.prems show "clock (rounds R F q k (waiting_round R F q w)) < d
                \<and> \<not> terminal (status_at R F q (waiting_round R F q w) k)"
      by (auto simp: status_at_def dest!: spec[of _ "Suc k"])
  qed
  show ?case
    using loop_waiting_round[OF assms(1) first] Suc.IH[OF rest] by simp
qed

lemma loop_timed_out:
  assumes "\<not> clock w < d"
  shows "get_metrics_results_loop R F q d w
       = Some (Inr [], w\<lparr>trace := trace w @ [timeout_warning q]\<rparr>)"
  using assms by (subst get_metrics_results_loop.simps) (simp add: timeout_warning_def)

lemma loop_failed:
  assumes "clock w < d"
    and "status (fst (call_get_query_results R q w)) \<in> {''Failed'', ''Cancelled''}"
  shows "get_metrics_results_loop R F q d w
       = Some (Inl (MetricsRetrievalError
            (''Query '' @ q @ '' failed with status ''
               @ status (fst (call_get_query_results R q w)) @ ''.'')),
          snd (call_get_query_results R q w))"
  using assms by (subst get_metrics_results_loop.simps) (simp add: case_prod_beta)

lemma loop_complete:
  assumes "clock w < d"
    and "status (fst (call_get_query_results R q w)) = ''Complete''"
  shows "get_metrics_results_loop R F q d w
       = Some (Inr (results (fst (call_get_query_results R q w))),
          snd (call_get_query_results R q w))"
  using assms by (subst get_metrics_results_loop.simps) (simp add: case_prod_beta)

text \<open>What \<open>n\<close> rounds do to the trace, the count of status checks and the clock.\<close>

lemma trace_rounds:
  "trace (rounds R F q n w)
   = trace w @ concat (replicate n [GetQueryResults q, Sleep (poll_interval_seconds F)])"
  by (induction n arbitrary: w)
     (simp_all add: waiting_round_def call_get_query_results_def Let_def)

lemma answered_rounds: "answered (rounds R F q n w) = answered w + n"
  by (induction n arbitrary: w)
     (simp_all add: waiting_round_def call_get_query_results_def Let_def)

lemma clock_rounds:
  "clock (rounds R F q n w)
   = clock w + (\<Sum>j<n. get_query_results_seconds R (answered w + j))
     + of_nat n * poll_interval_seconds F"
  by (induction n arbitrary: w)
     (simp_all add: waiting_round_def call_get_query_results_def Let_def
        sum.lessThan_Suc_shift algebra_simps del: sum.lessThan_Suc)

lemma status_at_eq:
  "status_at R F q w k = status (get_query_results R q (answered w + k))"
  by (simp add: status_at_def call_get_query_results_def Let_def answered_rounds)

subsection \<open>When the poller returns\<close>

text \<open>
  With a positive interval and a service whose answers take no negative time, the clock
  passes the deadline after finitely many rounds, so the poller returns, with a value or
  an exception. With a zero interval, an instant service and no terminal status it never
  does: this is the run that the model gives the value \<open>None\<close>.
\<close>

lemma clock_rounds_lower:
  assumes "\<forall>k. 0 \<le> get_query_results_seconds R k"
  shows "clock w + of_nat n * poll_interval_seconds F \<le> clock (rounds R F q n w)"
proof -
  have "0 \<le> (\<Sum>j<n. get_query_results_seconds R (answered w + j))"
    using assms by (intro sum_nonneg) simp
  then show ?thesis by (simp add: clock_rounds)
qed

lemma poller_returns:
  assumes "0 < poll_interval_seconds F" and "\<forall>k. 0 \<le> get_query_results_seconds R k"
  shows "\<exists>y. get_metrics_results_sync R F q w = Some y"
proof -
  let ?d = "clock w + poll_timeout_seconds F"
  define stop where
    "stop n \<longleftrightarrow> \<not> clock (rounds R F q n w) < ?d \<or> terminal (status_at R F q w n)" for n
  obtain m where "poll_timeout_seconds F < of_nat m * poll_interval_seconds F"
    using ex_less_of_nat_mult[OF assms(1)] by blast
  with clock_rounds_lower[OF assms(2), of w m F q] have "stop m"
    by (simp add: stop_def)
  define n where "n = (LEAST n. stop n)"
  have "stop n"
    unfolding n_def using \<open>stop m\<close> by (rule LeastI)
  have "\<not> stop k" if "k < n" for k
    using that not_less_Least unfolding n_def by blast
  then have "\<forall>k<n. clock (rounds R F q k w) < ?d \<and> \<not> terminal (status_at R F q w k)"
    by (simp add: stop_def)
  with assms(1) have eq: "get_metrics_results_loop R F q ?d w
      = get_metrics_results_loop R F q ?d (rounds R F q n w)"
    by (intro loop_waiting_rounds) simp_all
  have "\<exists>y. get_metrics_results_loop R F q ?d (rounds R F q n w) = Some y"
  proof (cases "clock (rounds R F q n w) < ?d")
    case False
    then show ?thesis by (simp add: loop_timed_out)
  next
    case True
    with \<open>stop n\<close> have "terminal (status_at R F q w n)"
      by (simp add: stop_def)
    then consider "status_at R F q w n \<in> {''Failed'', ''Cancelled''}"
      | "status_at R F q w n = ''Complete''"
      by (auto simp: terminal_def)
    then show ?thesis
    proof cases
      case 1
      with True show ?thesis
        using loop_failed[of "rounds R F q n w" ?d R q F] by (simp add: status_at_def)
    next
      case 2
      with True show ?thesis
        using loop_complete[of "rounds R F q n w" ?d R q F] by (simp add: status_at_def)
    qed
  qed
  with eq show ?thesis
    by (simp add: get_metrics_results_sync_def)
qed

lemma poller_spins_aux:
  assumes "get_metrics_results_loop R F q d w = Some y"
  shows "\<not> (poll_interval_seconds F = 0 \<and> (\<forall>k. get_query_results_seconds R k = 0)
            \<and> (\<forall>k. \<not> terminal (status (get_query_results R q k))) \<and> clock w < d)"
proof (rule get_metrics_results_loop.raw_induct
    [where P = "\<lambda>R F q d w y.
          \<not> (poll_interval_seconds F = 0 \<and> (\<forall>k. get_query_results_seconds R k = 0)
            \<and> (\<forall>k. \<not> terminal (status (get_query_results R q k))) \<and> clock w < d)",
     OF _ assms], goal_cases)
  case (1 loop R F q d w y)
  show ?case
  proof
    assume a: "poll_interval_seconds F = 0 \<and> (\<forall>k. get_query_results_seconds R k = 0)
            \<and> (\<forall>k. \<not> terminal (status (get_query_results R q k))) \<and> clock w < d"
    then have "\<not> terminal (status (get_query_results R q (answered w)))"
      by blast
    with a "1"(2) have "loop R F q d (waiting_round R F q w) = Some y"
      by (auto simp: case_prod_beta terminal_def time_sleep_def waiting_round_def
          call_get_query_results_def Let_def)
    moreover from a have "clock (waiting_round R F q w) < d"
      by (simp add: waiting_round_def call_get_query_results_def Let_def)
    ultimately show False
      using "1"(1) a by blast
  qed
qed

lemma poller_spins:
  assumes "poll_interval_seconds F = 0" and "0 < poll_timeout_seconds F"
    and "\<forall>k. get_query_results_seconds R k = 0"
    and "\<forall>k. \<not> terminal (status (get_query_results R q k))"
  shows "get_metrics_results_sync R F q w = None"
proof (cases "get_metrics_results_sync R F q w")
  case None
  then show ?thesis .
next
  case (Some y)
  then have "get_metrics_results_loop R F q (clock w + poll_timeout_seconds F) w = Some y"
    by (simp add: get_metrics_results_sync_def)
  from poller_spins_aux[OF this] assms show ?thesis by simp
qed

text \<open>The sample submission, evaluated.\<close>

lemma submit_job1:
  "query_submitter (stub_client sts recs) ''job-1'' (Some 1000) (Some 2000) None world0
   = (Inr ''q-1'', world1)"
  by (simp add: query_submitter_def call_start_query_def stub_client_def world0_def world1_def
      job1_request_def py_or_int_def py_or_str_def LOG_GROUP_NAME_def)

subsection \<open>Polls that see the same service\<close>

text \<open>
  The relation \<open>replays\<close> is kept by a round and decides the loop test and the answer of
  the next status check. By fixpoint induction on the loop, a poll that returns in one
  world returns the same value in the other; by symmetry, the two polls agree also when
  one of them never returns.
\<close>

lemma replays_head:
  assumes "replays R q d w d' w'"
  shows "clock w' < d' \<longleftrightarrow> clock w < d"
    and "fst (call_get_query_results R q w') = fst (call_get_query_results R q w)"
proof -
  from assms have "d' - clock w' = d - clock w"
    and "get_query_results R q (answered w' + 0) = get_query_results R q (answered w + 0)"
    unfolding replays_def by blast+
  then show "clock w' < d' \<longleftrightarrow> clock w < d"
    and "fst (call_get_query_results R q w') = fst (call_get_query_results R q w)"
    by (auto simp: call_get_query_results_def Let_def)
qed

lemma replays_round:
  assumes "replays R q d w d' w'"
  shows "replays R q d (waiting_round R F q w) d' (waiting_round R F q w')"
proof -
  from assms have c: "d' - clock w' = d - clock w"
    and g: "\<And>k. get_query_results R q (answered w' + k) = get_query_results R q (answered w + k)"
    and s: "\<And>k. get_query_results_seconds R (answered w' + k)
            = get_query_results_seconds R (answered w + k)"
    unfolding replays_def by blast+
  have "get_query_results_seconds R (answered w') = get_query_results_seconds R (answered w)"
    using s[of 0] by simp
  with c have "d' - clock (waiting_round R F q w') = d - clock (waiting_round R F q w)"
    by (simp add: waiting_round_def call_get_query_results_def Let_def)
  moreover have "answered (waiting_round R F q w') = Suc (answered w')"
    "answered (waiting_round R F q w) = Suc (answered w)"
    by (simp_all add: waiting_round_def call_get_query_results_def Let_def)
  ultimately show ?thesis
    unfolding replays_def using g[of "Suc _"] s[of "Suc _"] by simp
qed

lemma replays_sym: "replays R q d w d' w' \<Longrightarrow> replays R q d' w' d w"
  unfolding replays_def by simp

lemma loop_replays_Some_aux:
  assumes "get_metrics_results_loop R F q d w = Some y"
  shows "\<forall>d' w'. replays R q d w d' w'
           \<longrightarrow> (\<exists>v'. get_metrics_results_loop R F q d' w' = Some (fst y, v'))"
proof (rule get_metrics_results_loop.raw_induct
    [where P = "\<lambda>R F q d w y. \<forall>d' w'. replays R q d w d' w'
           \<longrightarrow> (\<exists>v'. get_metrics_results_loop R F q d' w' = Some (fst y, v'))",
     OF _ assms], goal_cases)
  case (1 loop R F q d w y)
  show ?case
  proof (intro allI impI)
    fix d' w'
    assume rp: "replays R q d w d' w'"
    note head = replays_head[OF rp]
    note body = "1"(2)
    show "\<exists>v'. get_metrics_results_loop R F q d' w' = Some (fst y, v')"
    proof (cases "clock w < d")
      case False
      with body head show ?thesis
        by (subst get_metrics_results_loop.simps) auto
    next
      case True
      let ?r = "fst (call_get_query_results R q w)"
      consider (failed) "status ?r \<in> set [''Failed'', ''Cancelled'']"
        | (complete) "status ?r \<notin> set [''Failed'', ''Cancelled'']" "status ?r = ''Complete''"
        | (raise) "\<not> terminal (status ?r)" "poll_interval_seconds F < 0"
        | (wait) "\<not> terminal (status ?r)" "0 \<le> poll_interval_seconds F"
        unfolding terminal_def by fastforce
      then show ?thesis
      proof cases
        case failed
        with True body head show ?thesis
          by (subst get_metrics_results_loop.simps) (auto simp: case_prod_beta)
      next
        case complete
        with True body head show ?thesis
          by (subst get_metrics_results_loop.simps) (auto simp: case_prod_beta)
      next
        case raise
        with True body head show ?thesis
          by (subst get_metrics_results_loop.simps)
             (auto simp: case_prod_beta terminal_def time_sleep_def)
      next
        case wait
        with True body have "loop R F q d (waiting_round R F q w) = Some y"
          by (auto simp: case_prod_beta terminal_def time_sleep_def waiting_round_def Let_def)
        from "1"(1)[OF this] replays_round[OF rp]
        obtain v' where
          "get_metrics_results_loop R F q d' (waiting_round R F q w') = Some (fst y, v')"
          by blast
        moreover have "get_metrics_results_loop R F q d' w'
            = get_metrics_results_loop R F q d' (waiting_round R F q w')"
          using wait True head by (intro loop_waiting_round) simp_all
        ultimately show ?thesis by simp
      qed
    qed
  qed
qed

lemma loop_replays_Some:
  assumes "get_metrics_results_loop R F q d w = Some y" and "replays R q d w d' w'"
  shows "\<exists>v'. get_metrics_results_loop R F q d' w' = Some (fst y, v')"
  using loop_replays_Some_aux[OF assms(1)] assms(2) by blast

lemma loop_replays:
  assumes "replays R q d w d' w'"
  shows "map_option fst (get_metrics_results_loop R F q d w)
       = map_option fst (get_metrics_results_loop R F q d' w')"
proof (cases "get_metrics_results_loop R F q d w")
  case None
  show ?thesis
  proof (cases "get_metrics_results_loop R F q d' w'")
    case None
    with \<open>get_metrics_results_loop R F q d w = None\<close> show ?thesis by simp
  next
    case (Some y')
    from loop_replays_Some[OF this replays_sym[OF assms]] None show ?thesis by simp
  qed
next
  case (Some y)
  from loop_replays_Some[OF this assms] Some show ?thesis by auto
qed

subsection \<open>Extraction and aggregation\<close>

lemma get_element_well_formed:
  "well_formed line \<Longrightarrow> get_element_from_log_line name line = Inr (first_value name line)"
  by (induction line) (auto simp: well_formed_def first_value_def)

lemma first_value_absent: "\<not> has_field name line \<Longrightarrow> first_value name line = None"
  by (induction line) (auto simp: has_field_def first_value_def)

lemma parse_log_line_well_formed:
  assumes "well_formed line"
  shows "parse_log_line P line parser = Inr (feed P parser (ingested [line]))"
  using assms
  by (simp add: parse_log_line_def get_element_well_formed feed_def split: option.splits)

lemma feed_append: "feed P parser (xs @ ys) = feed P (feed P parser xs) ys"
  by (simp add: feed_def)

lemma ingested_Cons: "ingested (line # lines) = ingested [line] @ ingested lines"
  by (simp split: option.splits)

lemma parse_log_lines_well_formed:
  assumes "list_all well_formed lines"
  shows "parse_log_lines P lines parser = Inr (feed P parser (ingested lines))"
  using assms
proof (induction lines arbitrary: parser)
  case Nil
  show ?case by (simp add: feed_def)
next
  case (Cons line lines)
  then have "parse_log_lines P (line # lines) parser
      = Inr (feed P (feed P parser (ingested [line])) (ingested lines))"
    by (simp add: parse_log_line_well_formed)
  then show ?case
    by (subst ingested_Cons) (simp only: feed_append)
qed

lemma parse_log_lines_append:
  "parse_log_lines P (xs @ ys) parser
   = (case parse_log_lines P xs parser of
        Inl e \<Rightarrow> Inl e
      | Inr parser' \<Rightarrow> parse_log_lines P ys parser')"
  by (induction xs arbitrary: parser) (auto split: sum.splits)

lemma feed_recording:
  "feed recording_parser calls pairs = calls @ map (\<lambda>(timestamp, message). Ingest timestamp message) pairs"
  by (induction pairs arbitrary: calls) (auto simp: feed_def recording_parser_def)

lemma parse_log_query_results_well_formed:
  assumes "list_all well_formed lines"
  shows "parse_log_query_results P lines metric_type statistic
           = Inr (get_parsed_metrics P metric_type statistic
                    (feed P (LogMetricsParser P) (ingested lines)))"
  by (simp add: parse_log_query_results_def parse_log_lines_well_formed[OF assms])

subsection \<open>Submission and the whole fetch\<close>

lemma answered_query_submitter:
  "answered (snd (query_submitter R job_name job_start_time job_end_time stream_prefix w))
   = answered w"
  by (simp add: query_submitter_def call_start_query_def Let_def)

lemma sync_replays:
  assumes "\<forall>k. get_query_results R q (answered w' + k) = get_query_results R q (answered w + k)"
    and "\<forall>k. get_query_results_seconds R (answered w' + k)
            = get_query_results_seconds R (answered w + k)"
  shows "map_option fst (get_metrics_results_sync R F q w)
       = map_option fst (get_metrics_results_sync R F q w')"
  unfolding get_metrics_results_sync_def Let_def
  using assms by (intro loop_replays) (simp add: replays_def)

lemma first_fetch:
  "get_metrics_for_job recording_parser
       (complete_client [energy_line ''1000'' ''Metrics - energy=0.1''])
       \<lparr>poll_timeout_seconds = 10, poll_interval_seconds = 1\<rparr>
       ''job-1'' ''timestamp'' ''max'' (Some 1000) (Some 2000) None world0
     = Some (Inr [Ingest (Some ''1000'') ''Metrics - energy=0.1'', Finalize ''timestamp'' ''max''],
             world2)"
  by (simp add: get_metrics_for_job_def query_submitter_def call_start_query_def
      get_metrics_results_sync_def get_metrics_results_loop.simps call_get_query_results_def
      parse_log_query_results_def parse_log_line_def recording_parser_def complete_client_def
      energy_line_def world0_def world2_def job1_request_def py_or_int_def py_or_str_def
      LOG_GROUP_NAME_def)

section \<open>The claims\<close>

text \<open>
  \<^bold>\<open>C1.\<close> When every status check made before the deadline answers a status that is not
  terminal (not \<^verbatim>\<open>Complete\<close>, \<^verbatim>\<open>Failed\<close> or \<^verbatim>\<open>Cancelled\<close>) and the clock reaches the
  deadline after \<open>n\<close> rounds of check and sleep, \<^verbatim>\<open>_get_metrics_results_sync\<close> returns: its
  value is the empty list, no exception is raised, and the only thing it adds to the \<open>n\<close>
  rounds is one warning naming the query. A fetch whose submission led to this poll then
  returns what the parser's \<^verbatim>\<open>get_parsed_metrics\<close> gives on a parser that was fed nothing.
  The poll interval is taken to be non-negative, as \<^verbatim>\<open>time.sleep\<close> demands.
\<close>

theorem poll_timeout_returns_empty:
  assumes "0 \<le> poll_interval_seconds F"
    and "\<forall>k<n. clock (rounds R F q k w) < clock w + poll_timeout_seconds F
              \<and> \<not> terminal (status_at R F q w k)"
    and "clock w + poll_timeout_seconds F \<le> clock (rounds R F q n w)"
  shows "get_metrics_results_sync R F q w
           = Some (Inr [], (rounds R F q n w)\<lparr>trace := trace (rounds R F q n w) @ [timeout_warning q]\<rparr>)
       \<and> (\<forall>job_name job_start_time job_end_time stream_prefix w0.
            query_submitter R job_name job_start_time job_end_time stream_prefix w0 = (Inr q, w)
            \<longrightarrow> get_metrics_for_job P R F job_name metric_type statistic
                  job_start_time job_end_time stream_prefix w0
                = Some (Inr (get_parsed_metrics P metric_type statistic (LogMetricsParser P)),
                    (rounds R F q n w)\<lparr>trace := trace (rounds R F q n w) @ [timeout_warning q]\<rparr>))"
proof -
  have "get_metrics_results_sync R F q w
        = Some (Inr [], (rounds R F q n w)\<lparr>trace := trace (rounds R F q n w) @ [timeout_warning q]\<rparr>)"
    unfolding get_metrics_results_sync_def Let_def
    using loop_waiting_rounds[OF assms(1,2)] loop_timed_out[of "rounds R F q n w"] assms(3)
    by simp
  then show ?thesis
    by (simp add: get_metrics_for_job_def parse_log_query_results_def)
qed

theorem poll_timeout_returns_empty_witness:
  "get_metrics_results_sync (stub_client [] []) \<lparr>poll_timeout_seconds = 2, poll_interval_seconds = 1\<rparr>
       ''q-1'' world1
     = Some (Inr [],
         \<lparr>clock = 1002, answered = 2,
          trace = [StartQuery job1_request, GetQueryResults ''q-1'', Sleep 1,
                   GetQueryResults ''q-1'', Sleep 1, timeout_warning ''q-1'']\<rparr>)
   \<and> get_metrics_for_job recording_parser (stub_client [] [])
         \<lparr>poll_timeout_seconds = 2, poll_interval_seconds = 1\<rparr>
         ''job-1'' ''timestamp'' ''max'' (Some 1000) (Some 2000) None world0
     = Some (Inr [Finalize ''timestamp'' ''max''],
         \<lparr>clock = 1002, answered = 2,
          trace = [StartQuery job1_request, GetQueryResults ''q-1'', Sleep 1,
                   GetQueryResults ''q-1'', Sleep 1, timeout_warning ''q-1'']\<rparr>)"
proof -
  let ?R = "stub_client [] []"
  let ?F = "\<lparr>poll_timeout_seconds = 2, poll_interval_seconds = 1\<rparr>"
  have r1: "rounds ?R ?F ''q-1'' (Suc 0) world1
      = \<lparr>clock = 1001, answered = 1,
         trace = [StartQuery job1_request, GetQueryResults ''q-1'', Sleep 1]\<rparr>"
    by (simp add: waiting_round_def call_get_query_results_def stub_client_def world1_def)
  have r2: "rounds ?R ?F ''q-1'' 2 world1
      = \<lparr>clock = 1002, answered = 2,
         trace = [StartQuery job1_request, GetQueryResults ''q-1'', Sleep 1,
                  GetQueryResults ''q-1'', Sleep 1]\<rparr>"
    by (simp add: numeral_2_eq_2 waiting_round_def call_get_query_results_def stub_client_def
        world1_def)
  have h1: "0 \<le> poll_interval_seconds ?F" by simp
  have h2: "\<forall>k<2. clock (rounds ?R ?F ''q-1'' k world1) < clock world1 + poll_timeout_seconds ?F
              \<and> \<not> terminal (status_at ?R ?F ''q-1'' world1 k)"
    using r1
    by (simp add: numeral_2_eq_2 less_Suc_eq status_at_def terminal_def
        call_get_query_results_def stub_client_def world1_def)
  have h3: "clock world1 + poll_timeout_seconds ?F \<le> clock (rounds ?R ?F ''q-1'' 2 world1)"
    by (simp add: r2) (simp add: world1_def)
  show ?thesis
    using poll_timeout_returns_empty[OF h1 h2 h3, of recording_parser "''timestamp''" "''max''"]
      submit_job1[of "[]" "[]"]
    by (simp add: r2 recording_parser_def)
qed

text \<open>
  \<^bold>\<open>C2.\<close> When, after \<open>n\<close> rounds that saw no terminal status, a status check made before
  the deadline answers \<^verbatim>\<open>Failed\<close> or \<^verbatim>\<open>Cancelled\<close>, the poller raises
  \<^verbatim>\<open>MetricsRetrievalError\<close> with the message
  \<^verbatim>\<open>Query <id> failed with status <status>.\<close>, the trace ends with that status check (nothing
  is polled or slept after it), and the fetch operation raises the same error.
\<close>

theorem failed_or_cancelled_raises:
  assumes "0 \<le> poll_interval_seconds F"
    and "\<forall>k<n. clock (rounds R F q k w) < clock w + poll_timeout_seconds F
              \<and> \<not> terminal (status_at R F q w k)"
    and "clock (rounds R F q n w) < clock w + poll_timeout_seconds F"
    and "status_at R F q w n \<in> {''Failed'', ''Cancelled''}"
  shows "get_metrics_results_sync R F q w
           = Some (Inl (MetricsRetrievalError
                     (''Query '' @ q @ '' failed with status '' @ status_at R F q w n @ ''.'')),
                   snd (call_get_query_results R q (rounds R F q n w)))
       \<and> trace (snd (call_get_query_results R q (rounds R F q n w)))
           = trace w @ concat (replicate n [GetQueryResults q, Sleep (poll_interval_seconds F)])
               @ [GetQueryResults q]
       \<and> (\<forall>job_name job_start_time job_end_time stream_prefix w0.
            query_submitter R job_name job_start_time job_end_time stream_prefix w0 = (Inr q, w)
            \<longrightarrow> get_metrics_for_job P R F job_name metric_type statistic
                  job_start_time job_end_time stream_prefix w0
                = Some (Inl (MetricsRetrievalError
                     (''Query '' @ q @ '' failed with status '' @ status_at R F q w n @ ''.'')),
                   snd (call_get_query_results R q (rounds R F q n w))))"
proof -
  have "get_metrics_results_sync R F q w
           = Some (Inl (MetricsRetrievalError
                     (''Query '' @ q @ '' failed with status '' @ status_at R F q w n @ ''.'')),
                   snd (call_get_query_results R q (rounds R F q n w)))"
    unfolding get_metrics_results_sync_def Let_def
    using loop_waiting_rounds[OF assms(1,2)] loop_failed[of "rounds R F q n w"] assms(3,4)
    by (simp add: status_at_def)
  moreover have "trace (snd (call_get_query_results R q (rounds R F q n w)))
           = trace w @ concat (replicate n [GetQueryResults q, Sleep (poll_interval_seconds F)])
               @ [GetQueryResults q]"
    by (simp add: call_get_query_results_def Let_def trace_rounds)
  ultimately show ?thesis
    by (simp add: get_metrics_for_job_def)
qed

theorem failed_or_cancelled_raises_witness:
  "get_metrics_for_job recording_parser (stub_client [''Running'', ''Cancelled''] [])
         \<lparr>poll_timeout_seconds = 10, poll_interval_seconds = 1\<rparr>
         ''job-1'' ''timestamp'' ''max'' (Some 1000) (Some 2000) None world0
     = Some (Inl (MetricsRetrievalError ''Query q-1 failed with status Cancelled.''),
         \<lparr>clock = 1001, answered = 2,
          trace = [StartQuery job1_request, GetQueryResults ''q-1'', Sleep 1,
                   GetQueryResults ''q-1'']\<rparr>)"
proof -
  let ?R = "stub_client [''Running'', ''Cancelled''] []"
  let ?F = "\<lparr>poll_timeout_seconds = 10, poll_interval_seconds = 1\<rparr>"
  have r1: "rounds ?R ?F ''q-1'' (Suc 0) world1
      = \<lparr>clock = 1001, answered = 1,
         trace = [StartQuery job1_request, GetQueryResults ''q-1'', Sleep 1]\<rparr>"
    by (simp add: waiting_round_def call_get_query_results_def stub_client_def world1_def)
  have h1: "0 \<le> poll_interval_seconds ?F" by simp
  have h2: "\<forall>k<Suc 0. clock (rounds ?R ?F ''q-1'' k world1) < clock world1 + poll_timeout_seconds ?F
              \<and> \<not> terminal (status_at ?R ?F ''q-1'' world1 k)"
    by (simp add: status_at_def terminal_def call_get_query_results_def stub_client_def world1_def)
  have h3: "clock (rounds ?R ?F ''q-1'' (Suc 0) world1) < clock world1 + poll_timeout_seconds ?F"
    unfolding r1 by (simp add: world1_def)
  have s: "status_at ?R ?F ''q-1'' world1 (Suc 0) = ''Cancelled''"
    unfolding status_at_def r1 by (simp add: call_get_query_results_def stub_client_def)
  then have h4: "status_at ?R ?F ''q-1'' world1 (Suc 0) \<in> {''Failed'', ''Cancelled''}"
    by simp
  show ?thesis
    using failed_or_cancelled_raises[OF h1 h2 h3 h4, of recording_parser "''timestamp''" "''max''",
        unfolded r1 s]
      submit_job1[of "[''Running'', ''Cancelled'']" "[]"]
    by (simp add: call_get_query_results_def stub_client_def)
qed

text \<open>
  \<^bold>\<open>C3.\<close> With an interval of 1 second and a timeout of 10 seconds, a service that answers
  \<^verbatim>\<open>Running\<close>, \<^verbatim>\<open>Running\<close>, \<^verbatim>\<open>Complete\<close> is checked exactly three times, with one sleep of
  one second between consecutive checks, and the poller returns the records of the third
  answer. The two first answers are taken to arrive within the budget (less than 8 seconds
  for both together, which leaves room for the two sleeps); a stub answers at once.
\<close>

theorem running_running_complete:
  assumes "poll_interval_seconds F = 1" and "poll_timeout_seconds F = 10"
    and "status (get_query_results R q (answered w)) = ''Running''"
    and "status (get_query_results R q (answered w + 1)) = ''Running''"
    and "status (get_query_results R q (answered w + 2)) = ''Complete''"
    and "0 \<le> get_query_results_seconds R (answered w)"
    and "0 \<le> get_query_results_seconds R (answered w + 1)"
    and "get_query_results_seconds R (answered w)
           + get_query_results_seconds R (answered w + 1) < 8"
  shows "get_metrics_results_sync R F q w
       = Some (Inr (results (get_query_results R q (answered w + 2))),
           w\<lparr>clock := clock w + get_query_results_seconds R (answered w) + 1
                      + get_query_results_seconds R (answered w + 1) + 1
                      + get_query_results_seconds R (answered w + 2),
             answered := answered w + 3,
             trace := trace w @ [GetQueryResults q, Sleep 1, GetQueryResults q, Sleep 1,
                                 GetQueryResults q]\<rparr>)"
proof -
  let ?d = "clock w + 10"
  let ?w1 = "waiting_round R F q w"
  let ?w2 = "waiting_round R F q ?w1"
  have a1: "answered ?w1 = answered w + 1" and a2: "answered ?w2 = answered w + 2"
    by (simp_all add: waiting_round_def call_get_query_results_def Let_def)
  have c1: "clock ?w1 = clock w + get_query_results_seconds R (answered w) + 1"
    using assms(1) by (simp add: waiting_round_def call_get_query_results_def Let_def)
  have c2: "clock ?w2 = clock w + get_query_results_seconds R (answered w) + 1
                      + get_query_results_seconds R (answered w + 1) + 1"
    using assms(1) c1 a1 by (simp add: waiting_round_def[of R F q ?w1] call_get_query_results_def Let_def)
  have t2: "trace ?w2 = trace w @ [GetQueryResults q, Sleep 1, GetQueryResults q, Sleep 1]"
    using assms(1) by (simp add: waiting_round_def call_get_query_results_def Let_def)
  have s0: "\<not> terminal (status (fst (call_get_query_results R q w)))"
    using assms(3) by (simp add: call_get_query_results_def Let_def terminal_def)
  have s1: "\<not> terminal (status (fst (call_get_query_results R q ?w1)))"
    using assms(4) a1 by (simp add: call_get_query_results_def Let_def terminal_def)
  have s2: "status (fst (call_get_query_results R q ?w2)) = ''Complete''"
    using assms(5) a2 by (simp add: call_get_query_results_def Let_def)
  have i: "0 \<le> poll_interval_seconds F" using assms(1) by simp
  have d0: "clock w < ?d" by simp
  have d1: "clock ?w1 < ?d" using c1 assms(6-8) by simp
  have d2: "clock ?w2 < ?d" using c2 assms(6-8) by simp
  have "get_metrics_results_loop R F q ?d w = get_metrics_results_loop R F q ?d ?w2"
    using loop_waiting_round[OF i d0 s0] loop_waiting_round[OF i d1 s1] by simp
  also have "\<dots> = Some (Inr (results (fst (call_get_query_results R q ?w2))),
                      snd (call_get_query_results R q ?w2))"
    by (rule loop_complete[OF d2 s2])
  also have "fst (call_get_query_results R q ?w2) = get_query_results R q (answered w + 2)"
    using a2 by (simp add: call_get_query_results_def Let_def)
  also have "snd (call_get_query_results R q ?w2)
     = w\<lparr>clock := clock w + get_query_results_seconds R (answered w) + 1
                      + get_query_results_seconds R (answered w + 1) + 1
                      + get_query_results_seconds R (answered w + 2),
             answered := answered w + 3,
             trace := trace w @ [GetQueryResults q, Sleep 1, GetQueryResults q, Sleep 1,
                                 GetQueryResults q]\<rparr>"
    using a2 c2 t2 assms(1)
    by (simp add: call_get_query_results_def waiting_round_def Let_def)
  finally show ?thesis
    using assms(2) by (simp add: get_metrics_results_sync_def)
qed

theorem running_running_complete_witness:
  "get_metrics_results_sync
       (stub_client [''Running'', ''Running'', ''Complete'']
          [[[''field'' \<mapsto> ''@message'', ''value'' \<mapsto> ''Metrics - energy=0.1'']]])
       \<lparr>poll_timeout_seconds = 10, poll_interval_seconds = 1\<rparr> ''q-1'' world1
     = Some (Inr [[[''field'' \<mapsto> ''@message'', ''value'' \<mapsto> ''Metrics - energy=0.1'']]],
         \<lparr>clock = 1002, answered = 3,
          trace = [StartQuery job1_request, GetQueryResults ''q-1'', Sleep 1,
                   GetQueryResults ''q-1'', Sleep 1, GetQueryResults ''q-1'']\<rparr>)"
proof -
  let ?R = "stub_client [''Running'', ''Running'', ''Complete'']
          [[[''field'' \<mapsto> ''@message'', ''value'' \<mapsto> ''Metrics - energy=0.1'']]]"
  let ?F = "\<lparr>poll_timeout_seconds = 10, poll_interval_seconds = 1\<rparr>"
  have h1: "poll_interval_seconds ?F = 1" and h2: "poll_timeout_seconds ?F = 10" by simp_all
  have h3: "status (get_query_results ?R ''q-1'' (answered world1)) = ''Running''"
    and h4: "status (get_query_results ?R ''q-1'' (answered world1 + 1)) = ''Running''"
    and h5: "status (get_query_results ?R ''q-1'' (answered world1 + 2)) = ''Complete''"
    by (simp_all add: stub_client_def world1_def)
  have h6: "0 \<le> get_query_results_seconds ?R (answered world1)"
    and h7: "0 \<le> get_query_results_seconds ?R (answered world1 + 1)"
    and h8: "get_query_results_seconds ?R (answered world1)
           + get_query_results_seconds ?R (answered world1 + 1) < 8"
    by (simp_all add: stub_client_def)
  show ?thesis
    using running_running_complete[OF h1 h2 h3 h4 h5 h6 h7 h8]
    by (simp add: stub_client_def world1_def)
qed

text \<open>
  \<^bold>\<open>C4.\<close> As the claim words it (one \<^verbatim>\<open>parse_log_message\<close> call for each record that has an
  \<^verbatim>\<open>@message\<close> field) it fails: line 109 tests the truth value of the message, so a record
  whose \<^verbatim>\<open>@message\<close> is the empty string is not handed to the parser. The sample below has
  an \<^verbatim>\<open>@message\<close> field and the parser sees only the final \<^verbatim>\<open>get_parsed_metrics\<close>.
\<close>

theorem empty_message_not_ingested:
  "well_formed (energy_line ''1500'' '''')
   \<and> has_field ''@message'' (energy_line ''1500'' '''')
   \<and> parse_log_query_results recording_parser [energy_line ''1500'' ''''] ''timestamp'' ''max''
       = Inr [Finalize ''timestamp'' ''max'']"
  by (simp add: well_formed_def has_field_def energy_line_def parse_log_query_results_def
      parse_log_line_def recording_parser_def)

text \<open>
  \<^bold>\<open>C4, amended.\<close> For well-formed records, \<^verbatim>\<open>_parse_log_query_results\<close> calls
  \<^verbatim>\<open>parse_log_message\<close> exactly once for each record whose first \<^verbatim>\<open>@message\<close> entry has a
  non-empty value (\<open>ingested\<close> lists them with their timestamps), in the order of the query
  result, on a parser created for this call, and then \<^verbatim>\<open>get_parsed_metrics\<close> exactly once,
  with the caller's metric type and statistic. The first equation says so for every parser,
  the second reads the calls off a parser that records them.
\<close>

theorem ingest_in_order_then_finalize:
  assumes "list_all well_formed lines"
  shows "parse_log_query_results P lines metric_type statistic
           = Inr (get_parsed_metrics P metric_type statistic
                    (feed P (LogMetricsParser P) (ingested lines)))
       \<and> parse_log_query_results recording_parser lines metric_type statistic
           = Inr (map (\<lambda>(timestamp, message). Ingest timestamp message) (ingested lines)
                  @ [Finalize metric_type statistic])"
proof
  show "parse_log_query_results P lines metric_type statistic
           = Inr (get_parsed_metrics P metric_type statistic
                    (feed P (LogMetricsParser P) (ingested lines)))"
    by (rule parse_log_query_results_well_formed[OF assms])
  have "parse_log_query_results recording_parser lines metric_type statistic
      = Inr (get_parsed_metrics recording_parser metric_type statistic
               (feed recording_parser [] (ingested lines)))"
    using parse_log_query_results_well_formed[OF assms, of recording_parser]
    by (simp add: recording_parser_def)
  then show "parse_log_query_results recording_parser lines metric_type statistic
           = Inr (map (\<lambda>(timestamp, message). Ingest timestamp message) (ingested lines)
                  @ [Finalize metric_type statistic])"
    by (simp add: feed_recording) (simp add: recording_parser_def)
qed

theorem ingest_in_order_then_finalize_witness:
  "parse_log_query_results recording_parser
       [energy_line ''1000'' ''Metrics - energy=0.1'', ptr_line, energy_line ''1500'' '''',
        energy_line ''1500'' ''Metrics - energy=0.2'']
       ''timestamp'' ''max''
     = Inr [Ingest (Some ''1000'') ''Metrics - energy=0.1'',
            Ingest (Some ''1500'') ''Metrics - energy=0.2'',
            Finalize ''timestamp'' ''max'']"
proof -
  let ?lines = "[energy_line ''1000'' ''Metrics - energy=0.1'', ptr_line, energy_line ''1500'' '''',
        energy_line ''1500'' ''Metrics - energy=0.2'']"
  have h: "list_all well_formed ?lines"
    by (simp add: well_formed_def energy_line_def ptr_line_def)
  have i: "ingested ?lines
      = [(Some ''1000'', ''Metrics - energy=0.1''), (Some ''1500'', ''Metrics - energy=0.2'')]"
    by (simp add: first_value_def energy_line_def ptr_line_def)
  show ?thesis
    using ingest_in_order_then_finalize[OF h, of recording_parser "''timestamp''" "''max''",
        THEN conjunct2]
    unfolding i by simp
qed

text \<open>
  \<^bold>\<open>C5.\<close> On a well-formed record (every entry has the keys \<^verbatim>\<open>field\<close> and \<^verbatim>\<open>value\<close>) the
  extraction of \<^verbatim>\<open>@message\<close> and of \<^verbatim>\<open>@timestamp\<close> returns a value, never an exception. A
  record without an \<^verbatim>\<open>@message\<close> field yields \<^verbatim>\<open>None\<close>, leaves the parser as it was (no
  call, no error), and can be removed from the query result without changing the table.
\<close>

theorem extraction_never_raises:
  assumes "well_formed line"
  shows "get_element_from_log_line ''@message'' line = Inr (first_value ''@message'' line)
       \<and> get_element_from_log_line ''@timestamp'' line = Inr (first_value ''@timestamp'' line)
       \<and> (\<not> has_field ''@message'' line \<longrightarrow>
            first_value ''@message'' line = None
          \<and> parse_log_line P line parser = Inr parser
          \<and> (\<forall>before after.
               parse_log_query_results P (before @ line # after) metric_type statistic
             = parse_log_query_results P (before @ after) metric_type statistic))"
proof -
  have "parse_log_line P line p = Inr p" if "\<not> has_field ''@message'' line" for p
    using that assms
    by (simp add: parse_log_line_def get_element_well_formed first_value_absent)
  then have "parse_log_lines P (before @ line # after) p = parse_log_lines P (before @ after) p"
    if "\<not> has_field ''@message'' line" for before after p
    using that by (simp add: parse_log_lines_append split: sum.splits)
  then show ?thesis
    using assms
    by (simp add: get_element_well_formed first_value_absent parse_log_query_results_def
        parse_log_line_def)
qed

theorem extraction_never_raises_witness:
  "get_element_from_log_line ''@message'' ptr_line = Inr None
   \<and> get_element_from_log_line ''@timestamp'' ptr_line = Inr None
   \<and> parse_log_line recording_parser ptr_line [] = Inr ([] :: (string, string) parser_call list)
   \<and> parse_log_query_results recording_parser
        ([energy_line ''1000'' ''Metrics - energy=0.1''] @ ptr_line # []) ''timestamp'' ''max''
     = parse_log_query_results recording_parser
        ([energy_line ''1000'' ''Metrics - energy=0.1''] @ []) ''timestamp'' ''max''"
proof -
  have h: "well_formed ptr_line"
    by (simp add: well_formed_def ptr_line_def)
  have n: "\<not> has_field ''@message'' ptr_line"
    by (simp add: has_field_def ptr_line_def)
  have v: "first_value ''@message'' ptr_line = None" "first_value ''@timestamp'' ptr_line = None"
    by (simp_all add: first_value_def ptr_line_def)
  note t = extraction_never_raises[OF h,
      of recording_parser "[] :: (string, string) parser_call list" "''timestamp''" "''max''"]
  from t n have "\<forall>before after.
      parse_log_query_results recording_parser (before @ ptr_line # after) ''timestamp'' ''max''
    = parse_log_query_results recording_parser (before @ after) ''timestamp'' ''max''"
    by blast
  then have "parse_log_query_results recording_parser
        ([energy_line ''1000'' ''Metrics - energy=0.1''] @ ptr_line # []) ''timestamp'' ''max''
     = parse_log_query_results recording_parser
        ([energy_line ''1000'' ''Metrics - energy=0.1''] @ []) ''timestamp'' ''max''"
    by blast
  with t n v show ?thesis
    by simp
qed

text \<open>
  \<^bold>\<open>C6.\<close> When neither \<^verbatim>\<open>job_start_time\<close> nor \<^verbatim>\<open>job_end_time\<close> is given, the request handed to
  \<^verbatim>\<open>start_query\<close> ends at the current clock reading (in whole seconds) and starts
  \<^verbatim>\<open>QUERY_DEFAULT_JOB_DURATION\<close> = 10800 seconds earlier.
\<close>

theorem default_window_is_three_hours:
  "\<exists>request.
      query_submitter R job_name None None stream_prefix w
        = (start_query R request,
           w\<lparr>clock := clock w + start_query_seconds R,
             trace := trace w @ [StartQuery request]\<rparr>)
    \<and> endTime request = py_int (clock w)
    \<and> endTime request - startTime request = QUERY_DEFAULT_JOB_DURATION
    \<and> QUERY_DEFAULT_JOB_DURATION = 10800"
  unfolding query_submitter_def call_start_query_def Let_def
  by (rule exI, intro conjI, rule refl)
     (simp_all add: py_or_int_def QUERY_DEFAULT_JOB_DURATION_def)

text \<open>
  \<^bold>\<open>C7.\<close> When \<^verbatim>\<open>stream_prefix\<close> is not given, the request handed to \<^verbatim>\<open>start_query\<close> names the
  log group \<^verbatim>\<open>/aws/braket/jobs\<close>, asks for at most 10000 records, and its query string
  filters \<^verbatim>\<open>@logStream\<close> by the pattern \<^verbatim>\<open>^\<close> followed by the job name and an escaped slash
  (so the job name is anchored at the start of the stream name) and \<^verbatim>\<open>@message\<close> by the
  marker \<^verbatim>\<open>Metrics - \<close>.
\<close>

theorem job_name_is_default_prefix:
  "\<exists>request.
      query_submitter R job_name job_start_time job_end_time None w
        = (start_query R request,
           w\<lparr>clock := clock w + start_query_seconds R,
             trace := trace w @ [StartQuery request]\<rparr>)
    \<and> logGroupName request = ''/aws/braket/jobs''
    \<and> queryString request
        = ''fields @timestamp, @message | filter @logStream like /^'' @ job_name
          @ CHR 0x5C # ''// | filter @message like /Metrics - /''
    \<and> limit request = 10000"
  unfolding query_submitter_def call_start_query_def Let_def
  by (rule exI, intro conjI, rule refl)
     (simp_all add: py_or_str_def LOG_GROUP_NAME_def)

text \<open>
  \<^bold>\<open>C8.\<close> Two fetches with the same arguments return the same result (the same table, the
  same exception, or both run forever), whatever the two worlds they start in (in
  particular when the second starts where the first ended), as long as the service is
  deterministic: it answers the two submissions alike, and replays the same sequence of
  answers and delays to the status checks. Clock, trace and the number of earlier status
  checks do not matter, and no parser state can: \<^verbatim>\<open>_parse_log_query_results\<close> starts from
  \<^verbatim>\<open>LogMetricsParser()\<close> each time, for every parser \<open>P\<close>.
\<close>

theorem fetch_is_repeatable:
  assumes "fst (query_submitter R job_name job_start_time job_end_time stream_prefix w)
         = fst (query_submitter R job_name job_start_time job_end_time stream_prefix w')"
    and "\<forall>q k. get_query_results R q (answered w' + k) = get_query_results R q (answered w + k)"
    and "\<forall>k. get_query_results_seconds R (answered w' + k)
            = get_query_results_seconds R (answered w + k)"
  shows "map_option fst
           (get_metrics_for_job P R F job_name metric_type statistic
              job_start_time job_end_time stream_prefix w)
       = map_option fst
           (get_metrics_for_job P R F job_name metric_type statistic
              job_start_time job_end_time stream_prefix w')"
proof -
  obtain r w1 where s1:
    "query_submitter R job_name job_start_time job_end_time stream_prefix w = (r, w1)"
    by (cases "query_submitter R job_name job_start_time job_end_time stream_prefix w")
  obtain r' w1' where s2:
    "query_submitter R job_name job_start_time job_end_time stream_prefix w' = (r', w1')"
    by (cases "query_submitter R job_name job_start_time job_end_time stream_prefix w'")
  from assms(1) s1 s2 have r: "r' = r" by simp
  from s1 s2 have a: "answered w1 = answered w" "answered w1' = answered w'"
    using answered_query_submitter[of R job_name job_start_time job_end_time stream_prefix w]
      answered_query_submitter[of R job_name job_start_time job_end_time stream_prefix w']
    by simp_all
  show ?thesis
  proof (cases r)
    case (Inl e)
    with s1 s2 r show ?thesis by (simp add: get_metrics_for_job_def)
  next
    case (Inr q)
    have "map_option fst (get_metrics_results_sync R F q w1)
        = map_option fst (get_metrics_results_sync R F q w1')"
      using assms(2,3) a by (intro sync_replays) simp_all
    then show ?thesis
      using s1 s2 r Inr
      by (cases "get_metrics_results_sync R F q w1"; cases "get_metrics_results_sync R F q w1'")
         (auto simp: get_metrics_for_job_def split: sum.splits)
  qed
qed

theorem fetch_is_repeatable_witness:
  "map_option fst
     (get_metrics_for_job recording_parser
        (complete_client [energy_line ''1000'' ''Metrics - energy=0.1''])
        \<lparr>poll_timeout_seconds = 10, poll_interval_seconds = 1\<rparr>
        ''job-1'' ''timestamp'' ''max'' (Some 1000) (Some 2000) None world2)
   = Some (Inr [Ingest (Some ''1000'') ''Metrics - energy=0.1'', Finalize ''timestamp'' ''max''])"
proof -
  let ?R = "complete_client [energy_line ''1000'' ''Metrics - energy=0.1'']"
  have h1: "fst (query_submitter ?R ''job-1'' (Some 1000) (Some 2000) None world0)
          = fst (query_submitter ?R ''job-1'' (Some 1000) (Some 2000) None world2)"
    by (simp add: query_submitter_def call_start_query_def complete_client_def Let_def)
  have h2: "\<forall>q k. get_query_results ?R q (answered world2 + k)
                 = get_query_results ?R q (answered world0 + k)"
    by (simp add: complete_client_def)
  have h3: "\<forall>k. get_query_results_seconds ?R (answered world2 + k)
               = get_query_results_seconds ?R (answered world0 + k)"
    by (simp add: complete_client_def)
  show ?thesis
    using fetch_is_repeatable[OF h1 h2 h3, of recording_parser
        "\<lparr>poll_timeout_seconds = 10, poll_interval_seconds = 1\<rparr>" "''timestamp''" "''max''"]
      first_fetch
    by simp
qed

text \<open>
  \<^bold>\<open>C9.\<close> A bound given as 0 is treated as a bound not given: the submission with
  \<^verbatim>\<open>job_end_time = 0\<close> is the submission with \<^verbatim>\<open>job_end_time = None\<close>, and its request ends at the
  current clock reading; likewise for \<^verbatim>\<open>job_start_time = 0\<close>, whose request starts three hours
  before its end.
\<close>

theorem zero_bound_is_unsupplied:
  "query_submitter R job_name job_start_time (Some 0) stream_prefix w
     = query_submitter R job_name job_start_time None stream_prefix w
   \<and> query_submitter R job_name (Some 0) job_end_time stream_prefix w
     = query_submitter R job_name None job_end_time stream_prefix w
   \<and> (\<exists>request.
        query_submitter R job_name job_start_time (Some 0) stream_prefix w
          = (start_query R request,
             w\<lparr>clock := clock w + start_query_seconds R,
               trace := trace w @ [StartQuery request]\<rparr>)
      \<and> endTime request = py_int (clock w))
   \<and> (\<exists>request.
        query_submitter R job_name (Some 0) job_end_time stream_prefix w
          = (start_query R request,
             w\<lparr>clock := clock w + start_query_seconds R,
               trace := trace w @ [StartQuery request]\<rparr>)
      \<and> startTime request = endTime request - 3 * 60 * 60)"
proof (intro conjI)
  show "query_submitter R job_name job_start_time (Some 0) stream_prefix w
     = query_submitter R job_name job_start_time None stream_prefix w"
    and "query_submitter R job_name (Some 0) job_end_time stream_prefix w
     = query_submitter R job_name None job_end_time stream_prefix w"
    by (simp_all add: query_submitter_def py_or_int_def)
  show "\<exists>request.
        query_submitter R job_name job_start_time (Some 0) stream_prefix w
          = (start_query R request,
             w\<lparr>clock := clock w + start_query_seconds R,
               trace := trace w @ [StartQuery request]\<rparr>)
      \<and> endTime request = py_int (clock w)"
    unfolding query_submitter_def call_start_query_def Let_def
    by (rule exI, intro conjI, rule refl) (simp add: py_or_int_def)
  show "\<exists>request.
        query_submitter R job_name (Some 0) job_end_time stream_prefix w
          = (start_query R request,
             w\<lparr>clock := clock w + start_query_seconds R,
               trace := trace w @ [StartQuery request]\<rparr>)
      \<and> startTime request = endTime request - 3 * 60 * 60"
    unfolding query_submitter_def call_start_query_def Let_def
    by (rule exI, intro conjI, rule refl)
       (simp add: py_or_int_def QUERY_DEFAULT_JOB_DURATION_def)
qed

theorem zero_bound_is_unsupplied_example:
  "query_submitter (stub_client [] []) ''job-1'' (Some 0) (Some 0) None world0
     = (Inr ''q-1'',
        \<lparr>clock = 1000, answered = 0,
         trace = [StartQuery (job1_request\<lparr>startTime := - 9800, endTime := 1000\<rparr>)]\<rparr>)"
  by (simp add: query_submitter_def call_start_query_def stub_client_def world0_def
      job1_request_def py_or_int_def py_or_str_def py_int_def LOG_GROUP_NAME_def
      QUERY_DEFAULT_JOB_DURATION_def)

text \<open>
  \<^bold>\<open>C10.\<close> With a poll timeout of at most 0 the poller makes no status check at all: it
  adds the timeout warning to the trace and returns the empty list, whatever the service
  would have answered. A fetch whose submission succeeded then returns
  \<^verbatim>\<open>get_parsed_metrics\<close> of a parser that was fed nothing, and raises no error.
\<close>

theorem nonpositive_timeout_never_polls:
  assumes "poll_timeout_seconds F \<le> 0"
  shows "get_metrics_results_sync R F q w
           = Some (Inr [], w\<lparr>trace := trace w @ [timeout_warning q]\<rparr>)
       \<and> (\<forall>job_name job_start_time job_end_time stream_prefix w0.
            query_submitter R job_name job_start_time job_end_time stream_prefix w0 = (Inr q, w)
            \<longrightarrow> get_metrics_for_job P R F job_name metric_type statistic
                  job_start_time job_end_time stream_prefix w0
                = Some (Inr (get_parsed_metrics P metric_type statistic (LogMetricsParser P)),
                    w\<lparr>trace := trace w @ [timeout_warning q]\<rparr>))"
proof -
  have "\<not> clock w < clock w + poll_timeout_seconds F"
    using assms by simp
  then have "get_metrics_results_sync R F q w
           = Some (Inr [], w\<lparr>trace := trace w @ [timeout_warning q]\<rparr>)"
    unfolding get_metrics_results_sync_def Let_def by (rule loop_timed_out)
  then show ?thesis
    by (simp add: get_metrics_for_job_def parse_log_query_results_def)
qed

theorem nonpositive_timeout_never_polls_witness:
  "get_metrics_for_job recording_parser (stub_client [''Failed''] [])
         \<lparr>poll_timeout_seconds = 0, poll_interval_seconds = 1\<rparr>
         ''job-1'' ''timestamp'' ''max'' (Some 1000) (Some 2000) None world0
     = Some (Inr [Finalize ''timestamp'' ''max''],
         \<lparr>clock = 1000, answered = 0,
          trace = [StartQuery job1_request, timeout_warning ''q-1'']\<rparr>)"
proof -
  have h: "poll_timeout_seconds \<lparr>poll_timeout_seconds = 0, poll_interval_seconds = 1\<rparr> \<le> 0"
    by simp
  show ?thesis
    using nonpositive_timeout_never_polls[OF h, of "stub_client [''Failed''] []" "''q-1''" world1
        recording_parser "''timestamp''" "''max''"]
      submit_job1[of "[''Failed'']" "[]"]
    by (simp add: recording_parser_def world1_def)
qed

end
